theory Spec2Isabelle
  imports Complex_Main "HOL-Library.Sublist"
begin

section \<open>Numbers and rounding\<close>

text \<open>
  The scoring engine of \<^verbatim>\<open>app/core/calculations.py\<close> and \<^verbatim>\<open>app/core/risk_rules.py\<close>
  computes with Python \<^verbatim>\<open>int\<close> and \<^verbatim>\<open>float\<close>. An \<^verbatim>\<open>int\<close> is \<^typ>\<open>int\<close>. A
  \<^verbatim>\<open>float\<close> is modelled by the exact rational number it stands for (\<^typ>\<open>rat\<close>):
  true division \<^verbatim>\<open>/\<close> is exact division, \<^verbatim>\<open>math.pow\<close> with an integer exponent is
  the exact power. The binary rounding error of each operation, overflow and the
  signed zero are outside this model.

  \<^verbatim>\<open>round(x)\<close> returns the integer nearest to \<open>x\<close>, a tie going to the even
  neighbour; \<^verbatim>\<open>round(x, n)\<close> does the same at the \<open>n\<close>-th decimal.
\<close>

definition py_round :: "rat \<Rightarrow> int" where
  "py_round x =
     (let f = \<lfloor>x\<rfloor>; d = x - of_int f
      in if d < 1 / 2 then f
         else if 1 / 2 < d then f + 1
         else if even f then f else f + 1)"

definition py_round_nd :: "rat \<Rightarrow> nat \<Rightarrow> rat" where
  "py_round_nd x n = of_int (py_round (x * 10 ^ n)) / 10 ^ n"

section \<open>Loan amortization (calculations.py)\<close>

text \<open>
  \<^verbatim>\<open>calculate_emi(principal, annual_rate, tenure_months)\<close>: two early returns, then
  the annuity formula, whose result alone goes through \<^verbatim>\<open>round(emi, 2)\<close>. The
  argument \<^verbatim>\<open>principal\<close> is written \<open>princ\<close>, the longer name being a constant of
  the library.
\<close>

definition calculate_emi :: "rat \<Rightarrow> rat \<Rightarrow> int \<Rightarrow> rat" where
  "calculate_emi princ annual_rate tenure_months =
     (if princ \<le> 0 \<or> tenure_months \<le> 0 then 0
      else if annual_rate \<le> 0 then princ / of_int tenure_months
      else
        let monthly_rate = annual_rate / 12 / 100;
            emi = (princ * monthly_rate * (1 + monthly_rate) ^ nat tenure_months) /
                  ((1 + monthly_rate) ^ nat tenure_months - 1)
        in py_round_nd emi 2)"


section \<open>Credit Health Index (calculations.py)\<close>

definition score_component :: "int \<Rightarrow> rat" where
  "score_component credit_score = (of_int credit_score / 900) * 40"

definition emi_component :: "rat \<Rightarrow> rat" where
  "emi_component emi_to_income_ratio = max 0 ((1 - emi_to_income_ratio / 100) * 30)"

definition loan_component :: "int \<Rightarrow> rat" where
  "loan_component active_loans = max 0 ((1 - of_int active_loans / 10) * 15)"

definition payment_component :: "int \<Rightarrow> rat" where
  "payment_component missed_payments = max 0 ((1 - of_int missed_payments / 5) * 15)"

definition calculate_chi :: "int \<Rightarrow> rat \<Rightarrow> int \<Rightarrow> int \<Rightarrow> int" where
  "calculate_chi credit_score emi_to_income_ratio active_loans missed_payments =
     (let chi = score_component credit_score + emi_component emi_to_income_ratio +
                loan_component active_loans + payment_component missed_payments
      in py_round chi)"





definition get_risk_level :: "int \<Rightarrow> string" where
  "get_risk_level chi_score =
     (if chi_score \<ge> 70 then ''low''
      else if chi_score \<ge> 40 then ''medium''
      else ''high'')"

section \<open>Risk rules (risk_rules.py)\<close>

text \<open>
  A rule of the catalog \<^verbatim>\<open>RISK_RULES\<close> is a dictionary with the keys \<^verbatim>\<open>id\<close>,
  \<^verbatim>\<open>title\<close>, \<^verbatim>\<open>rule\<close>, \<^verbatim>\<open>severity\<close>, \<^verbatim>\<open>check\<close> and
  \<^verbatim>\<open>description_template\<close>; the record fields carry the prefix \<open>r_\<close>.
  The profile handed to a check is a dictionary from names to numbers, read with
  \<^verbatim>\<open>profile.get(key, default)\<close>. A check or a rendering may raise, so both return
  a sum with the exception on the left.
\<close>

datatype py_error = KeyError | TypeError

type_synonym profile = "string \<rightharpoonup> rat"

definition profile_get :: "profile \<Rightarrow> string \<Rightarrow> rat \<Rightarrow> rat" where
  "profile_get profile key dflt = (case profile key of None \<Rightarrow> dflt | Some v \<Rightarrow> v)"

text \<open>
  The keyword arguments of the one \<^verbatim>\<open>.format(...)\<close> call of
  \<^verbatim>\<open>generate_risk_alerts\<close>. A description template is the function from these
  arguments to the rendered text; a template that names a placeholder outside these
  six raises \<^verbatim>\<open>KeyError\<close>.
\<close>

record format_args =
  ratio :: rat
  utilization :: int
  score :: int
  loans :: int
  disposable_pct :: rat
  trend :: int

record risk_rule =
  r_id :: string
  r_title :: string
  r_rule :: string
  r_severity :: string
  r_check :: "profile \<Rightarrow> py_error + bool"
  r_description_template :: "format_args \<Rightarrow> py_error + string"

text \<open>Decimal digits of a number, as \<^verbatim>\<open>str(int)\<close> and the format \<^verbatim>\<open>.0f\<close> print them.\<close>

fun show_nat :: "nat \<Rightarrow> string" where
  "show_nat n =
     (if n < 10 then [''0123456789'' ! n]
      else show_nat (n div 10) @ [''0123456789'' ! (n mod 10)])"

declare show_nat.simps [simp del]

definition str_int :: "int \<Rightarrow> string" where
  "str_int i = (if i < 0 then ''-'' @ show_nat (nat (- i)) else show_nat (nat i))"

definition format_0f :: "rat \<Rightarrow> string" where
  "format_0f x = (if x < 0 then ''-'' else []) @ show_nat (nat \<bar>py_round x\<bar>)"

text \<open>\<^verbatim>\<open>_check_disposable(profile)\<close>\<close>

definition check_disposable :: "profile \<Rightarrow> rat" where
  "check_disposable profile =
     (let income = profile_get profile ''monthly_income'' 0;
          expenses = profile_get profile ''monthly_expenses'' 0;
          emis = profile_get profile ''existing_emis'' 0
      in if income \<le> 0 then 0
         else let disposable = income - expenses - emis
              in (disposable / income) * 100)"

definition rule_high_emi_burden :: risk_rule where
  "rule_high_emi_burden =
     \<lparr> r_id = ''high_emi_burden'',
       r_title = ''High EMI Burden'',
       r_rule = ''EMI > 40% of income'',
       r_severity = ''high'',
       r_check = (\<lambda>profile. Inr (profile_get profile ''emi_ratio'' 0 > 40)),
       r_description_template = (\<lambda>a. Inr (''Your EMI consumes '' @ format_0f (ratio a) @
         ''% of your income. This may reduce future loan eligibility.'')) \<rparr>"

definition rule_very_high_emi :: risk_rule where
  "rule_very_high_emi =
     \<lparr> r_id = ''very_high_emi'',
       r_title = ''Critical EMI Level'',
       r_rule = ''EMI > 60% of income'',
       r_severity = ''high'',
       r_check = (\<lambda>profile. Inr (profile_get profile ''emi_ratio'' 0 > 60)),
       r_description_template = (\<lambda>a. Inr (''Your EMI is at '' @ format_0f (ratio a) @
         ''% of income - critically high. Consider debt consolidation.'')) \<rparr>"

definition rule_high_credit_utilization :: risk_rule where
  "rule_high_credit_utilization =
     \<lparr> r_id = ''high_credit_utilization'',
       r_title = ''Credit Utilization Rising'',
       r_rule = ''Credit utilization > 60%'',
       r_severity = ''medium'',
       r_check = (\<lambda>profile. Inr (profile_get profile ''credit_utilization'' 0 > 60)),
       r_description_template = (\<lambda>a. Inr (''Your credit utilization is at '' @
         str_int (utilization a) @ ''%. Consider paying down balances.'')) \<rparr>"

definition rule_very_high_utilization :: risk_rule where
  "rule_very_high_utilization =
     \<lparr> r_id = ''very_high_utilization'',
       r_title = ''Credit Utilization Critical'',
       r_rule = ''Credit utilization > 80%'',
       r_severity = ''high'',
       r_check = (\<lambda>profile. Inr (profile_get profile ''credit_utilization'' 0 > 80)),
       r_description_template = (\<lambda>a. Inr (''Credit utilization at '' @
         str_int (utilization a) @
         ''% is critically high. This severely impacts your score.'')) \<rparr>"

definition rule_low_credit_score :: risk_rule where
  "rule_low_credit_score =
     \<lparr> r_id = ''low_credit_score'',
       r_title = ''Low Credit Score'',
       r_rule = ''Credit score < 600'',
       r_severity = ''high'',
       r_check = (\<lambda>profile. Inr (profile_get profile ''credit_score'' 700 < 600)),
       r_description_template = (\<lambda>a. Inr (''Your credit score of '' @ str_int (score a) @
         '' is below average. Focus on timely payments and reducing debt.'')) \<rparr>"

definition rule_multiple_active_loans :: risk_rule where
  "rule_multiple_active_loans =
     \<lparr> r_id = ''multiple_active_loans'',
       r_title = ''Multiple Active Loans'',
       r_rule = ''Active loans > 3'',
       r_severity = ''medium'',
       r_check = (\<lambda>profile. Inr (profile_get profile ''active_loans'' 0 > 3)),
       r_description_template = (\<lambda>a. Inr (''You have '' @ str_int (loans a) @
         '' active loans. Consider consolidating to simplify management.'')) \<rparr>"

definition rule_low_disposable_income :: risk_rule where
  "rule_low_disposable_income =
     \<lparr> r_id = ''low_disposable_income'',
       r_title = ''Low Disposable Income'',
       r_rule = ''Disposable income < 20% of income'',
       r_severity = ''medium'',
       r_check = (\<lambda>profile. Inr (check_disposable profile < 20)),
       r_description_template = (\<lambda>a. Inr (''Your disposable income is only '' @
         format_0f (disposable_pct a) @
         ''% of your earnings. Build an emergency fund.'')) \<rparr>"

definition rule_score_improvement :: risk_rule where
  "rule_score_improvement =
     \<lparr> r_id = ''score_improvement'',
       r_title = ''Score Improvement'',
       r_rule = ''Positive trend detected'',
       r_severity = ''low'',
       r_check = (\<lambda>profile. Inr (profile_get profile ''score_trend'' 0 > 30)),
       r_description_template = (\<lambda>a. Inr (''Your credit score has improved by '' @
         str_int (trend a) @ '' points in the last 6 months. Keep it up!'')) \<rparr>"

definition rule_healthy_finances :: risk_rule where
  "rule_healthy_finances =
     \<lparr> r_id = ''healthy_finances'',
       r_title = ''Healthy Financial Status'',
       r_rule = ''EMI < 30% and score > 750'',
       r_severity = ''low'',
       r_check = (\<lambda>profile. Inr (profile_get profile ''emi_ratio'' 100 < 30 \<and>
                                   profile_get profile ''credit_score'' 0 > 750)),
       r_description_template = (\<lambda>a. Inr
         ''Your finances are in excellent shape with low EMI burden and high credit score.'') \<rparr>"

definition rule_optimal_utilization :: risk_rule where
  "rule_optimal_utilization =
     \<lparr> r_id = ''optimal_utilization'',
       r_title = ''Optimal Credit Utilization'',
       r_rule = ''Credit utilization between 10-30%'',
       r_severity = ''low'',
       r_check = (\<lambda>profile. Inr (10 \<le> profile_get profile ''credit_utilization'' 0 \<and>
                                   profile_get profile ''credit_utilization'' 0 \<le> 30)),
       r_description_template = (\<lambda>a. Inr (''Your credit utilization of '' @
         str_int (utilization a) @ ''% is in the optimal range. Well done!'')) \<rparr>"

definition RISK_RULES :: "risk_rule list" where
  "RISK_RULES =
     [rule_high_emi_burden, rule_very_high_emi, rule_high_credit_utilization,
      rule_very_high_utilization, rule_low_credit_score, rule_multiple_active_loans,
      rule_low_disposable_income, rule_score_improvement, rule_healthy_finances,
      rule_optimal_utilization]"

text \<open>
  A triggered alert: the dictionary appended in the loop, fields prefixed \<open>a_\<close>.
\<close>

record alert =
  a_id :: string
  a_title :: string
  a_description :: string
  a_severity :: string
  a_rule :: string
  a_created_at :: string
  a_is_active :: bool

text \<open>
  The body of the \<^verbatim>\<open>try\<close> block for one rule: an exception of the check or of the
  rendering (\<open>Inl\<close>), no alert (\<open>Inr None\<close>) or the alert to append.
\<close>

definition eval_rule :: "risk_rule \<Rightarrow> profile \<Rightarrow> format_args \<Rightarrow> string \<Rightarrow> py_error + alert option" where
  "eval_rule rule profile args now =
     (case r_check rule profile of
        Inl e \<Rightarrow> Inl e
      | Inr triggered \<Rightarrow>
          if triggered then
            (case r_description_template rule args of
               Inl e \<Rightarrow> Inl e
             | Inr description \<Rightarrow>
                 Inr (Some \<lparr> a_id = r_id rule, a_title = r_title rule,
                             a_description = description, a_severity = r_severity rule,
                             a_rule = r_rule rule, a_created_at = now,
                             a_is_active = True \<rparr>))
          else Inr None)"

text \<open>
  The loop over the rules, with the list \<^verbatim>\<open>alerts\<close> as accumulator;
  \<^verbatim>\<open>except Exception: continue\<close> is the first case.
\<close>

fun eval_rules :: "risk_rule list \<Rightarrow> profile \<Rightarrow> format_args \<Rightarrow> string \<Rightarrow> alert list \<Rightarrow> alert list" where
  "eval_rules [] profile args now alerts = alerts"
| "eval_rules (rule # rules) profile args now alerts =
     (case eval_rule rule profile args now of
        Inl e \<Rightarrow> eval_rules rules profile args now alerts
      | Inr None \<Rightarrow> eval_rules rules profile args now alerts
      | Inr (Some a) \<Rightarrow> eval_rules rules profile args now (alerts @ [a]))"

definition severity_order :: "string \<rightharpoonup> nat" where
  "severity_order = [''high'' \<mapsto> 0, ''medium'' \<mapsto> 1, ''low'' \<mapsto> 2]"

definition severity_key :: "alert \<Rightarrow> nat" where
  "severity_key x = (case severity_order (a_severity x) of None \<Rightarrow> 3 | Some k \<Rightarrow> k)"

definition build_profile :: "int \<Rightarrow> rat \<Rightarrow> rat \<Rightarrow> rat \<Rightarrow> int \<Rightarrow> int \<Rightarrow> rat \<Rightarrow> rat \<Rightarrow> int \<Rightarrow> profile" where
  "build_profile credit_score monthly_income monthly_expenses existing_emis
       credit_utilization active_loans emi_ratio disp_pct score_trend =
     [''credit_score'' \<mapsto> of_int credit_score,
      ''monthly_income'' \<mapsto> monthly_income,
      ''monthly_expenses'' \<mapsto> monthly_expenses,
      ''existing_emis'' \<mapsto> existing_emis,
      ''credit_utilization'' \<mapsto> of_int credit_utilization,
      ''active_loans'' \<mapsto> of_int active_loans,
      ''emi_ratio'' \<mapsto> emi_ratio,
      ''disposable_pct'' \<mapsto> disp_pct,
      ''score_trend'' \<mapsto> of_int score_trend]"

text \<open>
  \<^verbatim>\<open>generate_risk_alerts\<close>, over a catalog given as argument. The time stamp
  \<^verbatim>\<open>datetime.utcnow().isoformat()\<close> is the argument \<open>now\<close>. \<^verbatim>\<open>list.sort\<close> is a
  stable sort, as \<^const>\<open>sort_key\<close> is.
\<close>

definition generate_risk_alerts_over ::
  "risk_rule list \<Rightarrow> string \<Rightarrow> int \<Rightarrow> rat \<Rightarrow> rat \<Rightarrow> rat \<Rightarrow> int \<Rightarrow> int \<Rightarrow> int \<Rightarrow> alert list" where
  "generate_risk_alerts_over rules now credit_score monthly_income monthly_expenses
       existing_emis credit_utilization active_loans score_trend =
     (let emi_ratio = (if monthly_income > 0 then existing_emis / monthly_income * 100 else 100);
          disposable = monthly_income - monthly_expenses - existing_emis;
          disp_pct = (if monthly_income > 0 then disposable / monthly_income * 100 else 0);
          profile = build_profile credit_score monthly_income monthly_expenses existing_emis
                      credit_utilization active_loans emi_ratio disp_pct score_trend;
          alerts = eval_rules rules profile
                     \<lparr> ratio = emi_ratio, utilization = credit_utilization,
                       score = credit_score, loans = active_loans,
                       disposable_pct = disp_pct, trend = score_trend \<rparr> now []
      in sort_key severity_key alerts)"

definition generate_risk_alerts ::
  "string \<Rightarrow> int \<Rightarrow> rat \<Rightarrow> rat \<Rightarrow> rat \<Rightarrow> int \<Rightarrow> int \<Rightarrow> int \<Rightarrow> alert list" where
  "generate_risk_alerts = generate_risk_alerts_over RISK_RULES"

section \<open>What-if simulation (risk_rules.py)\<close>

text \<open>
  An entry of the catalog \<^verbatim>\<open>SIMULATION_ACTIONS\<close>, fields prefixed \<open>s_\<close>, and the
  dictionary that \<^verbatim>\<open>simulate_action\<close> returns.
\<close>

record sim_action =
  s_id :: string
  s_title :: string
  s_description :: string
  s_impact :: int
  s_direction :: string
  s_explanation :: string
  s_alternative :: string

record sim_result =
  current_score :: int
  projected_score :: int
  impact :: int
  direction :: string
  explanation :: string
  alternative :: string

definition SIMULATION_ACTIONS :: "sim_action list" where
  "SIMULATION_ACTIONS =
     [\<lparr> s_id = ''miss_emi'',
        s_title = ''Miss 1 EMI'',
        s_description = ''See the impact of missing a single EMI payment'',
        s_impact = - 35,
        s_direction = ''down'',
        s_explanation = ''Missing one EMI may reduce your score by ~30-40 points. Payment history accounts for 35% of your credit score.'',
        s_alternative = ''Set up auto-debit or extend tenure by 6 months to reduce EMI if you're tight on cash.'' \<rparr>,
      \<lparr> s_id = ''increase_util'',
        s_title = ''Increase Utilization'',
        s_description = ''Use more of your available credit limit'',
        s_impact = - 25,
        s_direction = ''down'',
        s_explanation = ''Increasing utilization above 70% signals credit dependency. Each 10% increase above 30% costs ~5-10 points.'',
        s_alternative = ''Request a credit limit increase instead, or spread expenses across multiple cards.'' \<rparr>,
      \<lparr> s_id = ''extend_tenure'',
        s_title = ''Extend Tenure'',
        s_description = ''Increase your loan repayment period'',
        s_impact = 5,
        s_direction = ''up'',
        s_explanation = ''Extending tenure lowers your EMI-to-income ratio, which can slightly improve your credit health index.'',
        s_alternative = ''Consider this option if you need immediate cash flow relief.'' \<rparr>,
      \<lparr> s_id = ''close_loan'',
        s_title = ''Close a Loan'',
        s_description = ''Pay off and close an existing loan'',
        s_impact = 15,
        s_direction = ''up'',
        s_explanation = ''Closing a loan reduces your debt burden and may improve your score by 10-20 points over 2-3 months.'',
        s_alternative = ''Prioritize closing high-interest loans first for maximum impact.'' \<rparr>,
      \<lparr> s_id = ''reduce_utilization'',
        s_title = ''Reduce Utilization to 30%'',
        s_description = ''Pay down credit card balances'',
        s_impact = 20,
        s_direction = ''up'',
        s_explanation = ''Reducing utilization below 30% is optimal. Each 10% reduction below 50% can add 5-10 points.'',
        s_alternative = ''If you can't pay down, request a credit limit increase to lower the ratio.'' \<rparr>,
      \<lparr> s_id = ''new_credit_inquiry'',
        s_title = ''Apply for New Credit'',
        s_description = ''Submit a new loan or credit card application'',
        s_impact = - 10,
        s_direction = ''down'',
        s_explanation = ''Each hard inquiry reduces your score by 5-15 points temporarily. Multiple inquiries in short time have bigger impact.'',
        s_alternative = ''Space out credit applications by at least 6 months when possible.'' \<rparr>]"

text \<open>
  \<^verbatim>\<open>get_simulation_action\<close>: the first entry of the catalog with the given id, or
  \<^verbatim>\<open>None\<close>.
\<close>

fun lookup_action :: "sim_action list \<Rightarrow> string \<Rightarrow> sim_action option" where
  "lookup_action [] action_id = None"
| "lookup_action (action # actions) action_id =
     (if s_id action = action_id then Some action else lookup_action actions action_id)"

definition get_simulation_action :: "string \<Rightarrow> sim_action option" where
  "get_simulation_action action_id = lookup_action SIMULATION_ACTIONS action_id"

text \<open>
  \<^verbatim>\<open>simulate_action\<close>. The test \<^verbatim>\<open>if not action\<close> is false for every entry of the
  catalog, a dictionary with seven keys, and true for \<^verbatim>\<open>None\<close>.
\<close>

definition simulate_action :: "string \<Rightarrow> int \<Rightarrow> sim_result option" where
  "simulate_action action_id cur_score =
     (case get_simulation_action action_id of
        None \<Rightarrow> None
      | Some action \<Rightarrow>
          let projected = cur_score + s_impact action;
              projected = max 300 (min 900 projected)
          in Some \<lparr> current_score = cur_score,
                    projected_score = projected,
                    impact = s_impact action,
                    direction = s_direction action,
                    explanation = s_explanation action,
                    alternative = s_alternative action \<rparr>)"

section \<open>Facts about rounding\<close>







section \<open>The risk classification\<close>

text \<open>
  C3. For every integer score, \<open>get_risk_level\<close> answers \<open>low\<close> exactly from 70 up,
  \<open>medium\<close> exactly from 40 to 69 and \<open>high\<close> exactly below 40; the four boundary
  values 70, 69, 40 and 39 give \<open>low\<close>, \<open>medium\<close>, \<open>medium\<close> and \<open>high\<close>.
\<close>

theorem get_risk_level_tiers:
  "(get_risk_level chi_score = ''low'') = (chi_score \<ge> 70) \<and>
   (get_risk_level chi_score = ''medium'') = (40 \<le> chi_score \<and> chi_score < 70) \<and>
   (get_risk_level chi_score = ''high'') = (chi_score < 40) \<and>
   get_risk_level 70 = ''low'' \<and> get_risk_level 69 = ''medium'' \<and>
   get_risk_level 40 = ''medium'' \<and> get_risk_level 39 = ''high''"
  by (simp add: get_risk_level_def)

section \<open>The Credit Health Index\<close>

lemma component_bounds:
  "0 \<le> emi_component r" "0 \<le> loan_component l" "0 \<le> payment_component m"
  by (simp_all add: emi_component_def loan_component_def payment_component_def)



lemma calculate_chi_pinned:
  "calculate_chi 900 0 0 0 = 100" "calculate_chi 300 100 10 5 = 13"
  by code_simp+



section \<open>The loan calculator\<close>

lemma calculate_emi_cases:
  "princ \<le> 0 \<or> tenure_months \<le> 0 \<Longrightarrow> calculate_emi princ annual_rate tenure_months = 0"
  "0 < princ \<Longrightarrow> 0 < tenure_months \<Longrightarrow> annual_rate \<le> 0 \<Longrightarrow>
     calculate_emi princ annual_rate tenure_months = princ / of_int tenure_months"
  "0 < princ \<Longrightarrow> 0 < tenure_months \<Longrightarrow> 0 < annual_rate \<Longrightarrow>
     calculate_emi princ annual_rate tenure_months =
       py_round_nd ((princ * (annual_rate / 12 / 100) * (1 + annual_rate / 12 / 100) ^ nat tenure_months) /
                    ((1 + annual_rate / 12 / 100) ^ nat tenure_months - 1)) 2"
  by (auto simp add: calculate_emi_def Let_def)

text \<open>
  C2. The claim has every returned value rounded to two decimals. The branch for
  \<open>annual_rate \<le> 0\<close> returns the quotient as it is: for a principal of 100 over 3
  months at rate 0 the result is 100/3, which two-decimal rounding would turn into
  33.33. The annuity branch of the same function does round.
\<close>

theorem calculate_emi_interest_free_unrounded:
  "calculate_emi 100 0 3 = 100 / 3 \<and>
   py_round_nd (calculate_emi 100 0 3) 2 = 3333 / 100 \<and>
   calculate_emi 100 0 3 \<noteq> py_round_nd (calculate_emi 100 0 3) 2"
  by code_simp






section \<open>The what-if simulator\<close>

lemma lookup_action_None: "(lookup_action xs i = None) = (i \<notin> set (map s_id xs))"
  by (induction xs) auto

lemma lookup_action_Some: "lookup_action xs i = Some a \<Longrightarrow> a \<in> set xs \<and> s_id a = i"
  by (induction xs) (auto split: if_splits)

lemma distinct_ids: "distinct (map s_id SIMULATION_ACTIONS)"
  by (simp add: SIMULATION_ACTIONS_def)

lemma lookup_action_distinct:
  "distinct (map s_id xs) \<Longrightarrow> a \<in> set xs \<Longrightarrow> lookup_action xs (s_id a) = Some a"
  by (induction xs) (auto simp: rev_image_eqI)

text \<open>
  C4. \<open>simulate_action\<close> returns \<open>None\<close> exactly for an id that is not in the catalog
  \<open>SIMULATION_ACTIONS\<close>; for the id of a catalog action it returns a result whose
  projected score is the current score plus the impact of that action, clamped to the
  interval from 300 to 900. Closing a loan at 700 projects 715, and the id
  \<open>unknown_id\<close> gives \<open>None\<close>.
\<close>

theorem simulate_action_spec:
  "(simulate_action action_id cur = None) = (action_id \<notin> set (map s_id SIMULATION_ACTIONS)) \<and>
   (\<forall>action. action \<in> set SIMULATION_ACTIONS \<and> s_id action = action_id \<longrightarrow>
      (\<exists>res. simulate_action action_id cur = Some res \<and>
         projected_score res = max 300 (min 900 (cur + s_impact action)) \<and>
         300 \<le> projected_score res \<and> projected_score res \<le> 900)) \<and>
   (\<exists>res. simulate_action ''close_loan'' 700 = Some res \<and> projected_score res = 715) \<and>
   simulate_action ''unknown_id'' 700 = None"
proof (intro conjI allI impI)
  show "(simulate_action action_id cur = None) = (action_id \<notin> set (map s_id SIMULATION_ACTIONS))"
  proof -
    have "(simulate_action action_id cur = None) =
          (lookup_action SIMULATION_ACTIONS action_id = None)"
      by (simp add: simulate_action_def get_simulation_action_def Let_def split: option.splits)
    then show ?thesis by (simp only: lookup_action_None)
  qed
next
  fix action
  assume "action \<in> set SIMULATION_ACTIONS \<and> s_id action = action_id"
  then have "lookup_action SIMULATION_ACTIONS action_id = Some action"
    using lookup_action_distinct [OF distinct_ids] by blast
  then show "\<exists>res. simulate_action action_id cur = Some res \<and>
         projected_score res = max 300 (min 900 (cur + s_impact action)) \<and>
         300 \<le> projected_score res \<and> projected_score res \<le> 900"
    by (simp add: simulate_action_def get_simulation_action_def Let_def)
next
  show "\<exists>res. simulate_action ''close_loan'' 700 = Some res \<and> projected_score res = 715"
    by (simp add: simulate_action_def get_simulation_action_def Let_def SIMULATION_ACTIONS_def)
next
  show "simulate_action ''unknown_id'' 700 = None"
    by (simp add: simulate_action_def get_simulation_action_def Let_def SIMULATION_ACTIONS_def)
qed

theorem simulate_action_spec_witness:
  "\<exists>res. simulate_action ''reduce_utilization'' 890 = Some res \<and> projected_score res = 900"
proof -
  let ?a = "SIMULATION_ACTIONS ! 4"
  have m: "?a \<in> set SIMULATION_ACTIONS \<and> s_id ?a = ''reduce_utilization''"
    by (simp add: SIMULATION_ACTIONS_def)
  have i: "s_impact ?a = 20"
    by (simp add: SIMULATION_ACTIONS_def)
  from simulate_action_spec [of "''reduce_utilization''" 890]
  have "\<forall>action. action \<in> set SIMULATION_ACTIONS \<and> s_id action = ''reduce_utilization'' \<longrightarrow>
      (\<exists>res. simulate_action ''reduce_utilization'' 890 = Some res \<and>
         projected_score res = max 300 (min 900 (890 + s_impact action)) \<and>
         300 \<le> projected_score res \<and> projected_score res \<le> 900)"
    by blast
  with m obtain res where "simulate_action ''reduce_utilization'' 890 = Some res"
    "projected_score res = max 300 (min 900 (890 + s_impact ?a))"
    by blast
  with i show ?thesis by simp
qed

section \<open>The rule loop\<close>

lemma eval_rules_append_acc:
  "eval_rules rs p a now acc = acc @ eval_rules rs p a now []"
proof (induction rs arbitrary: acc)
  case Nil
  show ?case by simp
next
  case (Cons r rs)
  show ?case
  proof (cases "eval_rule r p a now")
    case (Inl e)
    then show ?thesis using Cons.IH [of acc] by simp
  next
    case (Inr o1)
    show ?thesis
    proof (cases o1)
      case None
      with Inr show ?thesis using Cons.IH [of acc] by simp
    next
      case (Some x)
      with Inr show ?thesis using Cons.IH [of "acc @ [x]"] Cons.IH [of "[x]"] by simp
    qed
  qed
qed

lemma eval_rules_Cons:
  "eval_rules (r # rs) p a now [] =
     (case eval_rule r p a now of Inr (Some x) \<Rightarrow> [x] | _ \<Rightarrow> []) @ eval_rules rs p a now []"
  using eval_rules_append_acc [of rs p a now "[x]" for x]
  by (simp split: sum.splits option.splits)


lemma eval_rule_Some:
  "eval_rule r p a now = Inr (Some x) \<Longrightarrow> a_id x = r_id r \<and> a_severity x = r_severity r"
  by (auto simp: eval_rule_def split: sum.splits if_splits)

lemma eval_rules_ids_subseq:
  "subseq (map a_id (eval_rules rs p a now [])) (map r_id rs)"
proof (induction rs)
  case Nil
  show ?case by simp
next
  case (Cons r rs)
  show ?case
  proof (cases "eval_rule r p a now")
    case (Inl e)
    then show ?thesis using Cons.IH
      by (simp del: eval_rules.simps add: eval_rules_Cons list_emb_Cons)
  next
    case (Inr o1)
    show ?thesis
    proof (cases o1)
      case None
      with Inr show ?thesis using Cons.IH
        by (simp del: eval_rules.simps add: eval_rules_Cons list_emb_Cons)
    next
      case (Some x)
      with Inr have "a_id x = r_id r" using eval_rule_Some by blast
      with Inr Some show ?thesis using Cons.IH
        by (simp del: eval_rules.simps add: eval_rules_Cons)
    qed
  qed
qed

lemma eval_rules_mem:
  "(x \<in> set (eval_rules rs p a now [])) = (\<exists>r. r \<in> set rs \<and> eval_rule r p a now = Inr (Some x))"
proof (induction rs)
  case Nil
  show ?case by simp
next
  case (Cons r rs)
  show ?case
    unfolding eval_rules_Cons set_append Un_iff Cons.IH
    by (auto split: sum.splits option.splits)
qed

lemma eval_rules_severity:
  "x \<in> set (eval_rules rs p a now []) \<Longrightarrow> a_severity x \<in> r_severity ` set rs"
  unfolding eval_rules_mem using eval_rule_Some by fastforce

lemma sort_key_same_key:
  "(\<And>x. x \<in> set xs \<Longrightarrow> f x = c) \<Longrightarrow> sort_key f xs = xs"
proof (induction xs)
  case Nil
  show ?case by simp
next
  case (Cons x xs)
  then have "sort_key f xs = xs" by simp
  moreover have "insort_key f x xs = x # xs"
    using Cons.prems by (intro insort_is_Cons) simp
  ultimately show ?case by simp
qed

lemma sorted_three_way:
  fixes f :: "'a \<Rightarrow> nat"
  assumes "sorted (map f xs)" and "\<And>x. x \<in> set xs \<Longrightarrow> f x < 3"
  shows "xs = filter (\<lambda>x. f x = 0) xs @ filter (\<lambda>x. f x = 1) xs @ filter (\<lambda>x. f x = 2) xs"
  using assms
proof (induction xs)
  case Nil
  show ?case by simp
next
  case (Cons x xs)
  have ih: "xs = filter (\<lambda>x. f x = 0) xs @ filter (\<lambda>x. f x = 1) xs @ filter (\<lambda>x. f x = 2) xs"
    using Cons by simp
  have le: "\<And>y. y \<in> set xs \<Longrightarrow> f x \<le> f y" using Cons.prems(1) by simp
  have "f x < 3" using Cons.prems(2) by simp
  then consider "f x = 0" | "f x = 1" | "f x = 2" by linarith
  then show ?case
  proof cases
    case 1
    then show ?thesis using ih by simp
  next
    case 2
    then have "filter (\<lambda>x. f x = 0) xs = []" using le by (fastforce simp: filter_empty_conv)
    with 2 ih show ?thesis by simp
  next
    case 3
    then have "filter (\<lambda>x. f x = 0) xs = []" "filter (\<lambda>x. f x = 1) xs = []"
      using le by (fastforce simp: filter_empty_conv)+
    with 3 ih show ?thesis by simp
  qed
qed

section \<open>The catalog of risk rules\<close>

lemmas rule_defs = rule_high_emi_burden_def rule_very_high_emi_def rule_high_credit_utilization_def
  rule_very_high_utilization_def rule_low_credit_score_def rule_multiple_active_loans_def
  rule_low_disposable_income_def rule_score_improvement_def rule_healthy_finances_def
  rule_optimal_utilization_def

lemma profile_get_build:
  "profile_get (build_profile cs mi me ee cu al er dp st) ''emi_ratio'' d = er"
  "profile_get (build_profile cs mi me ee cu al er dp st) ''credit_score'' d = of_int cs"
  "profile_get (build_profile cs mi me ee cu al er dp st) ''monthly_income'' d = mi"
  "profile_get (build_profile cs mi me ee cu al er dp st) ''monthly_expenses'' d = me"
  "profile_get (build_profile cs mi me ee cu al er dp st) ''existing_emis'' d = ee"
  "profile_get (build_profile cs mi me ee cu al er dp st) ''credit_utilization'' d = of_int cu"
  "profile_get (build_profile cs mi me ee cu al er dp st) ''active_loans'' d = of_int al"
  "profile_get (build_profile cs mi me ee cu al er dp st) ''score_trend'' d = of_int st"
  by (simp_all add: build_profile_def profile_get_def)

lemma risk_rule_ids:
  "map r_id RISK_RULES =
     [''high_emi_burden'', ''very_high_emi'', ''high_credit_utilization'',
      ''very_high_utilization'', ''low_credit_score'', ''multiple_active_loans'',
      ''low_disposable_income'', ''score_improvement'', ''healthy_finances'',
      ''optimal_utilization'']"
  by (simp add: RISK_RULES_def rule_defs)

lemma risk_rule_severities:
  "map r_severity RISK_RULES =
     [''high'', ''high'', ''medium'', ''high'', ''high'', ''medium'', ''medium'', ''low'',
      ''low'', ''low'']"
  by (simp add: RISK_RULES_def rule_defs)

lemma distinct_rule_ids: "distinct (map r_id RISK_RULES)"
  unfolding risk_rule_ids by simp

lemma rule_of_id:
  assumes "r \<in> set RISK_RULES"
  shows "r_id r = ''high_emi_burden'' \<Longrightarrow> r = rule_high_emi_burden"
    and "r_id r = ''healthy_finances'' \<Longrightarrow> r = rule_healthy_finances"
proof -
  have a: "rule_high_emi_burden \<in> set RISK_RULES" "rule_healthy_finances \<in> set RISK_RULES"
    by (simp_all add: RISK_RULES_def)
  have i: "r_id rule_high_emi_burden = ''high_emi_burden''"
    "r_id rule_healthy_finances = ''healthy_finances''"
    by (simp_all add: rule_defs)
  have inj: "inj_on r_id (set RISK_RULES)"
    using distinct_rule_ids by (simp add: distinct_map)
  show "r = rule_high_emi_burden" if "r_id r = ''high_emi_burden''"
    using inj_onD [OF inj _ assms a(1)] that i(1) by simp
  show "r = rule_healthy_finances" if "r_id r = ''healthy_finances''"
    using inj_onD [OF inj _ assms a(2)] that i(2) by simp
qed

lemma eval_rule_fires:
  "eval_rule r p a now = Inr (Some x) \<Longrightarrow> r_check r p = Inr True"
  by (auto simp: eval_rule_def split: sum.splits if_splits)

lemma set_generate:
  "set (generate_risk_alerts_over rs now cs mi me ee cu al st) =
   set (eval_rules rs
     (build_profile cs mi me ee cu al (if mi > 0 then ee / mi * 100 else 100)
        (if mi > 0 then (mi - me - ee) / mi * 100 else 0) st)
     \<lparr> ratio = (if mi > 0 then ee / mi * 100 else 100), utilization = cu, score = cs,
       loans = al, disposable_pct = (if mi > 0 then (mi - me - ee) / mi * 100 else 0),
       trend = st \<rparr> now [])"
  by (simp add: generate_risk_alerts_over_def Let_def)

text \<open>
  C9. The output of \<open>generate_risk_alerts\<close> never holds both the alert
  \<open>high_emi_burden\<close> and the alert \<open>healthy_finances\<close>: the first needs the EMI
  ratio of the call above 40, the second the same ratio below 30.
\<close>

theorem burden_excludes_healthy:
  "\<not> (''high_emi_burden'' \<in> set (map a_id (generate_risk_alerts now cs mi me ee cu al st)) \<and>
      ''healthy_finances'' \<in> set (map a_id (generate_risk_alerts now cs mi me ee cu al st)))"
proof
  let ?er = "if mi > 0 then ee / mi * 100 else (100::rat)"
  let ?p = "build_profile cs mi me ee cu al ?er (if mi > 0 then (mi - me - ee) / mi * 100 else 0) st"
  assume h: "''high_emi_burden'' \<in> set (map a_id (generate_risk_alerts now cs mi me ee cu al st)) \<and>
      ''healthy_finances'' \<in> set (map a_id (generate_risk_alerts now cs mi me ee cu al st))"
  then obtain x y where
    x: "x \<in> set (generate_risk_alerts now cs mi me ee cu al st)" "a_id x = ''high_emi_burden''" and
    y: "y \<in> set (generate_risk_alerts now cs mi me ee cu al st)" "a_id y = ''healthy_finances''"
    by auto
  from x(1) obtain r where r: "r \<in> set RISK_RULES" "eval_rule r ?p
     \<lparr> ratio = ?er, utilization = cu, score = cs,
       loans = al, disposable_pct = (if mi > 0 then (mi - me - ee) / mi * 100 else 0),
       trend = st \<rparr> now = Inr (Some x)"
    unfolding generate_risk_alerts_def set_generate eval_rules_mem by blast
  from y(1) obtain q where q: "q \<in> set RISK_RULES" "eval_rule q ?p
     \<lparr> ratio = ?er, utilization = cu, score = cs,
       loans = al, disposable_pct = (if mi > 0 then (mi - me - ee) / mi * 100 else 0),
       trend = st \<rparr> now = Inr (Some y)"
    unfolding generate_risk_alerts_def set_generate eval_rules_mem by blast
  have "r = rule_high_emi_burden" using r x(2) eval_rule_Some rule_of_id(1) by metis
  then have "r_check rule_high_emi_burden ?p = Inr True" using r(2) eval_rule_fires by blast
  then have high: "?er > 40"
    by (simp add: rule_high_emi_burden_def profile_get_build)
  have "q = rule_healthy_finances" using q y(2) eval_rule_Some rule_of_id(2) by metis
  then have "r_check rule_healthy_finances ?p = Inr True" using q(2) eval_rule_fires by blast
  then have "?er < 30"
    by (simp add: rule_healthy_finances_def profile_get_build)
  with high show False by simp
qed

lemma show_nat_values: "show_nat 0 = ''0''" "show_nat 100 = ''100''"
  by (simp_all add: show_nat.simps)

lemma format_0f_values: "format_0f 100 = ''100''" "format_0f 0 = ''0''"
  by (simp_all add: format_0f_def py_round_def show_nat_values)

lemma eval_rules_fired:
  "r \<in> set rs \<Longrightarrow> eval_rule r p a now = Inr (Some x) \<Longrightarrow> x \<in> set (eval_rules rs p a now [])"
  unfolding eval_rules_mem by blast

text \<open>
  C10. With a monthly income of zero or less, whatever the EMIs and the expenses, the
  output of \<open>generate_risk_alerts\<close> holds the alerts \<open>high_emi_burden\<close>,
  \<open>very_high_emi\<close> and \<open>low_disposable_income\<close>; their descriptions show the
  sentinel ratio 100 and the disposable percentage 0.
\<close>

theorem no_income_alerts:
  assumes "monthly_income \<le> 0"
  shows "(''high_emi_burden'',
            ''Your EMI consumes 100% of your income. This may reduce future loan eligibility.'')
           \<in> set (map (\<lambda>x. (a_id x, a_description x))
                (generate_risk_alerts now credit_score monthly_income monthly_expenses
                   existing_emis credit_utilization active_loans score_trend)) \<and>
         (''very_high_emi'',
            ''Your EMI is at 100% of income - critically high. Consider debt consolidation.'')
           \<in> set (map (\<lambda>x. (a_id x, a_description x))
                (generate_risk_alerts now credit_score monthly_income monthly_expenses
                   existing_emis credit_utilization active_loans score_trend)) \<and>
         (''low_disposable_income'',
            ''Your disposable income is only 0% of your earnings. Build an emergency fund.'')
           \<in> set (map (\<lambda>x. (a_id x, a_description x))
                (generate_risk_alerts now credit_score monthly_income monthly_expenses
                   existing_emis credit_utilization active_loans score_trend))"
proof -
  let ?p = "build_profile credit_score monthly_income monthly_expenses existing_emis
              credit_utilization active_loans 100 0 score_trend"
  let ?a = "\<lparr> ratio = 100, utilization = credit_utilization, score = credit_score,
              loans = active_loans, disposable_pct = 0, trend = score_trend \<rparr>"
  let ?out = "generate_risk_alerts now credit_score monthly_income monthly_expenses
                existing_emis credit_utilization active_loans score_trend"
  have out: "set ?out = set (eval_rules RISK_RULES ?p ?a now [])"
    using assms by (simp add: generate_risk_alerts_def set_generate)
  have mem: "rule_high_emi_burden \<in> set RISK_RULES" "rule_very_high_emi \<in> set RISK_RULES"
    "rule_low_disposable_income \<in> set RISK_RULES"
    by (simp_all add: RISK_RULES_def)
  have disp: "check_disposable ?p = 0"
    using assms by (simp add: check_disposable_def Let_def profile_get_build)
  have "\<exists>x. eval_rule rule_high_emi_burden ?p ?a now = Inr (Some x) \<and> a_id x = ''high_emi_burden'' \<and>
     a_description x = ''Your EMI consumes 100% of your income. This may reduce future loan eligibility.''"
    by (simp add: eval_rule_def rule_high_emi_burden_def profile_get_build format_0f_values)
  then have 1: "\<exists>x \<in> set ?out. a_id x = ''high_emi_burden'' \<and>
     a_description x = ''Your EMI consumes 100% of your income. This may reduce future loan eligibility.''"
    unfolding out using eval_rules_fired [OF mem(1)] by blast
  have "\<exists>x. eval_rule rule_very_high_emi ?p ?a now = Inr (Some x) \<and> a_id x = ''very_high_emi'' \<and>
     a_description x = ''Your EMI is at 100% of income - critically high. Consider debt consolidation.''"
    by (simp add: eval_rule_def rule_very_high_emi_def profile_get_build format_0f_values)
  then have 2: "\<exists>x \<in> set ?out. a_id x = ''very_high_emi'' \<and>
     a_description x = ''Your EMI is at 100% of income - critically high. Consider debt consolidation.''"
    unfolding out using eval_rules_fired [OF mem(2)] by blast
  have "\<exists>x. eval_rule rule_low_disposable_income ?p ?a now = Inr (Some x) \<and>
     a_id x = ''low_disposable_income'' \<and>
     a_description x = ''Your disposable income is only 0% of your earnings. Build an emergency fund.''"
    by (simp add: eval_rule_def rule_low_disposable_income_def disp format_0f_values)
  then have 3: "\<exists>x \<in> set ?out. a_id x = ''low_disposable_income'' \<and>
     a_description x = ''Your disposable income is only 0% of your earnings. Build an emergency fund.''"
    unfolding out using eval_rules_fired [OF mem(3)] by blast
  from 1 2 3 show ?thesis
    unfolding set_map image_iff by (intro conjI) (metis (lifting))+
qed



theorem no_income_alerts_witness:
  "(''high_emi_burden'',
      ''Your EMI consumes 100% of your income. This may reduce future loan eligibility.'')
     \<in> set (map (\<lambda>x. (a_id x, a_description x))
          (generate_risk_alerts ''2024-01-01T00:00:00'' 700 0 500 200 0 0 0)) \<and>
   (''very_high_emi'',
      ''Your EMI is at 100% of income - critically high. Consider debt consolidation.'')
     \<in> set (map (\<lambda>x. (a_id x, a_description x))
          (generate_risk_alerts ''2024-01-01T00:00:00'' 700 0 500 200 0 0 0)) \<and>
   (''low_disposable_income'',
      ''Your disposable income is only 0% of your earnings. Build an emergency fund.'')
     \<in> set (map (\<lambda>x. (a_id x, a_description x))
          (generate_risk_alerts ''2024-01-01T00:00:00'' 700 0 500 200 0 0 0))"
  using no_income_alerts [of 0 "''2024-01-01T00:00:00''" 700 500 200 0 0 0] by simp



section \<open>Ordering of the alerts\<close>

lemma severity_key_values:
  "severity_key x = 0 \<longleftrightarrow> a_severity x = ''high''"
  "severity_key x = 1 \<longleftrightarrow> a_severity x = ''medium''"
  "severity_key x = 2 \<longleftrightarrow> a_severity x = ''low''"
  by (auto simp add: severity_key_def severity_order_def)

lemma severity_key_bound:
  "a_severity x \<in> {''high'', ''medium'', ''low''} \<Longrightarrow> severity_key x < 3"
  by (auto simp add: severity_key_def severity_order_def)

lemma generate_collected:
  "\<exists>p a. generate_risk_alerts now cs mi me ee cu al st =
     sort_key severity_key (eval_rules RISK_RULES p a now [])"
  unfolding generate_risk_alerts_def generate_risk_alerts_over_def Let_def by blast

text \<open>
  C5. The list returned by \<open>generate_risk_alerts\<close> is sorted by severity in the
  order high, medium, low: it is its high alerts, followed by its medium alerts,
  followed by its low alerts. The sort is stable: the alerts of one severity stand in
  the order of their rules in the catalog, whose ids are pairwise distinct. With one rule of each severity triggered
  (a medium rule standing first in the catalog) the output order is high, medium, low.
\<close>

theorem alerts_sorted_stable:
  fixes now :: string and credit_score :: int
    and monthly_income monthly_expenses existing_emis :: rat
    and credit_utilization active_loans score_trend :: int
  defines "out \<equiv> generate_risk_alerts now credit_score monthly_income monthly_expenses
                     existing_emis credit_utilization active_loans score_trend"
  shows "sorted (map severity_key out) \<and>
         out = filter (\<lambda>x. a_severity x = ''high'') out @
               filter (\<lambda>x. a_severity x = ''medium'') out @
               filter (\<lambda>x. a_severity x = ''low'') out \<and>
         subseq (map a_id (filter (\<lambda>x. a_severity x = s) out)) (map r_id RISK_RULES) \<and>
         distinct (map r_id RISK_RULES) \<and>
         map a_id (generate_risk_alerts now 550 100 10 10 70 0 31) =
           [''low_credit_score'', ''high_credit_utilization'', ''score_improvement''] \<and>
         map a_severity (generate_risk_alerts now 550 100 10 10 70 0 31) =
           [''high'', ''medium'', ''low'']"
proof -
  obtain p a where out: "out = sort_key severity_key (eval_rules RISK_RULES p a now [])"
    unfolding out_def using generate_collected by blast
  let ?c = "eval_rules RISK_RULES p a now []"
  have srt: "sorted (map severity_key out)"
    unfolding out by simp
  have sev: "a_severity x \<in> {''high'', ''medium'', ''low''}" if "x \<in> set out" for x
  proof -
    from that have "x \<in> set ?c" unfolding out by simp
    then have "a_severity x \<in> r_severity ` set RISK_RULES" by (rule eval_rules_severity)
    also have "r_severity ` set RISK_RULES = set (map r_severity RISK_RULES)" by simp
    also have "\<dots> = {''high'', ''medium'', ''low''}"
      unfolding risk_rule_severities by auto
    finally show ?thesis .
  qed
  have "out = filter (\<lambda>x. severity_key x = 0) out @ filter (\<lambda>x. severity_key x = 1) out @
              filter (\<lambda>x. severity_key x = 2) out"
    using srt sev by (intro sorted_three_way severity_key_bound)
  then have part: "out = filter (\<lambda>x. a_severity x = ''high'') out @
               filter (\<lambda>x. a_severity x = ''medium'') out @
               filter (\<lambda>x. a_severity x = ''low'') out"
    by (simp only: severity_key_values)
  have "filter (\<lambda>x. a_severity x = s) out =
        sort_key severity_key (filter (\<lambda>x. a_severity x = s) ?c)"
    unfolding out by (rule filter_sort)
  also have "\<dots> = filter (\<lambda>x. a_severity x = s) ?c"
    by (rule sort_key_same_key [where c = "case severity_order s of None \<Rightarrow> 3 | Some k \<Rightarrow> k"])
       (simp add: severity_key_def)
  finally have st: "filter (\<lambda>x. a_severity x = s) out = filter (\<lambda>x. a_severity x = s) ?c" .
  have "subseq (map a_id (filter (\<lambda>x. a_severity x = s) ?c)) (map a_id ?c)"
    by (intro subseq_map) simp
  then have sub: "subseq (map a_id (filter (\<lambda>x. a_severity x = s) out)) (map r_id RISK_RULES)"
    unfolding st using eval_rules_ids_subseq subseq_order.order_trans by blast
  have ex: "map a_id (generate_risk_alerts now 550 100 10 10 70 0 31) =
           [''low_credit_score'', ''high_credit_utilization'', ''score_improvement'']"
     "map a_severity (generate_risk_alerts now 550 100 10 10 70 0 31) =
           [''high'', ''medium'', ''low'']"
    by code_simp+
  from srt part sub ex distinct_rule_ids show ?thesis by blast
qed

end
